theory Spec2Isabelle
  imports Complex_Main
begin

section \<open>The axis coordinate (frontend/src/lib/types.ts)\<close>

text \<open>
  The sixteen axis keys of \<^verbatim>\<open>AXIS_KEYS\<close>, in the order of the source array.
  \<open>key_name\<close> is the string literal each key stands for.
\<close>

datatype AxisKey =
    Pillar | Sector | Honeycomb | Branch | Node
  | Regulatory | Compliance | Compliance_level | Audit_requirements | Regulatory_framework
  | Role_knowledge | Role_sector | Role_regulatory | Role_compliance
  | Location | Temporal

definition AXIS_KEYS :: "AxisKey list" where
  "AXIS_KEYS =
     [Pillar, Sector, Honeycomb, Branch, Node,
      Regulatory, Compliance, Compliance_level, Audit_requirements, Regulatory_framework,
      Role_knowledge, Role_sector, Role_regulatory, Role_compliance,
      Location, Temporal]"

fun key_name :: "AxisKey \<Rightarrow> string" where
  "key_name Pillar = ''pillar''"
| "key_name Sector = ''sector''"
| "key_name Honeycomb = ''honeycomb''"
| "key_name Branch = ''branch''"
| "key_name Node = ''node''"
| "key_name Regulatory = ''regulatory''"
| "key_name Compliance = ''compliance''"
| "key_name Compliance_level = ''compliance_level''"
| "key_name Audit_requirements = ''audit_requirements''"
| "key_name Regulatory_framework = ''regulatory_framework''"
| "key_name Role_knowledge = ''role_knowledge''"
| "key_name Role_sector = ''role_sector''"
| "key_name Role_regulatory = ''role_regulatory''"
| "key_name Role_compliance = ''role_compliance''"
| "key_name Location = ''location''"
| "key_name Temporal = ''temporal''"

text \<open>
  \<^verbatim>\<open>interface AxisCoordinate\<close>: \<open>pillar\<close> is a string, \<open>sector\<close> is
  \<^verbatim>\<open>string | number\<close>, \<open>honeycomb\<close> an optional array of strings, and the other
  thirteen axes optional strings. An optional field that is not there is \<open>None\<close>.
  The numbers are the runtime's: \<open>number\<close> is the type of every
  \<^verbatim>\<open>number\<close>, integer or not, left unspecified, and \<^verbatim>\<open>Number.prototype.toString\<close> is
  the parameter \<open>toString\<close> of the functions that render a number, so that nothing is
  assumed about how the runtime writes a number.
\<close>

typedecl number

datatype sector_value = SectorString string | SectorNumber number

record AxisCoordinate =
  pillar :: string
  sector :: sector_value
  honeycomb :: "string list option"
  branch :: "string option"
  node :: "string option"
  regulatory :: "string option"
  compliance :: "string option"
  compliance_level :: "string option"
  audit_requirements :: "string option"
  regulatory_framework :: "string option"
  role_knowledge :: "string option"
  role_sector :: "string option"
  role_regulatory :: "string option"
  role_compliance :: "string option"
  location :: "string option"
  temporal :: "string option"

text \<open>
  The values \<^verbatim>\<open>coord[key]\<close> can have: \<^verbatim>\<open>string | number | string[] | undefined\<close>.
  \<open>Absent\<close> is the missing value (\<^verbatim>\<open>undefined\<close> in the frontend, \<^verbatim>\<open>None\<close> in the
  backend model, \<^verbatim>\<open>null\<close> on the wire).
\<close>

datatype axis_value = Absent | Str string | Num number | Arr "string list"

fun optional_string :: "string option \<Rightarrow> axis_value" where
  "optional_string None = Absent"
| "optional_string (Some s) = Str s"

fun get_axis :: "AxisCoordinate \<Rightarrow> AxisKey \<Rightarrow> axis_value" where
  "get_axis coord Pillar = Str (pillar coord)"
| "get_axis coord Sector =
     (case sector coord of SectorString s \<Rightarrow> Str s | SectorNumber n \<Rightarrow> Num n)"
| "get_axis coord Honeycomb =
     (case honeycomb coord of None \<Rightarrow> Absent | Some xs \<Rightarrow> Arr xs)"
| "get_axis coord Branch = optional_string (branch coord)"
| "get_axis coord Node = optional_string (node coord)"
| "get_axis coord Regulatory = optional_string (regulatory coord)"
| "get_axis coord Compliance = optional_string (compliance coord)"
| "get_axis coord Compliance_level = optional_string (compliance_level coord)"
| "get_axis coord Audit_requirements = optional_string (audit_requirements coord)"
| "get_axis coord Regulatory_framework = optional_string (regulatory_framework coord)"
| "get_axis coord Role_knowledge = optional_string (role_knowledge coord)"
| "get_axis coord Role_sector = optional_string (role_sector coord)"
| "get_axis coord Role_regulatory = optional_string (role_regulatory coord)"
| "get_axis coord Role_compliance = optional_string (role_compliance coord)"
| "get_axis coord Location = optional_string (location coord)"
| "get_axis coord Temporal = optional_string (temporal coord)"

subsection \<open>Strings of the runtime\<close>

text \<open>\<^verbatim>\<open>Array.prototype.join(sep)\<close> on an array of strings.\<close>

fun join :: "string \<Rightarrow> string list \<Rightarrow> string" where
  "join sep [] = []"
| "join sep [x] = x"
| "join sep (x # y # ys) = x @ sep @ join sep (y # ys)"

text \<open>
  \<^verbatim>\<open>value?.toString()\<close>: \<^verbatim>\<open>undefined\<close> (here \<open>None\<close>) when the value is missing, the
  string itself for a string, and what the runtime's \<open>toString\<close> returns for a number.
  \<^verbatim>\<open>a || b\<close> on an optional string: \<open>b\<close> when \<open>a\<close> is missing or the empty string.
\<close>

fun optional_toString :: "(number \<Rightarrow> string) \<Rightarrow> axis_value \<Rightarrow> string option" where
  "optional_toString toString Absent = None"
| "optional_toString toString (Str s) = Some s"
| "optional_toString toString (Num n) = Some (toString n)"
| "optional_toString toString (Arr xs) = Some (join '','' xs)"

fun or_else :: "string option \<Rightarrow> string \<Rightarrow> string" where
  "or_else None d = d"
| "or_else (Some s) d = (if s = [] then d else s)"

subsection \<open>The utility functions\<close>

definition createEmptyCoordinate :: AxisCoordinate where
  "createEmptyCoordinate =
     \<lparr>pillar = '''', sector = SectorString '''', honeycomb = None, branch = None,
      node = None, regulatory = None, compliance = None, compliance_level = None,
      audit_requirements = None, regulatory_framework = None, role_knowledge = None,
      role_sector = None, role_regulatory = None, role_compliance = None,
      location = None, temporal = None\<rparr>"

definition coordinateToArray :: "AxisCoordinate \<Rightarrow> axis_value list" where
  "coordinateToArray coord = map (\<lambda>key. get_axis coord key) AXIS_KEYS"

definition nuremberg_slot ::
    "(number \<Rightarrow> string) \<Rightarrow> AxisCoordinate \<Rightarrow> AxisKey \<Rightarrow> string" where
  "nuremberg_slot toString coord key =
     (let value = get_axis coord key in
      case value of
        Arr xs \<Rightarrow> join '','' xs
      | _ \<Rightarrow> or_else (optional_toString toString value) '''')"

definition coordinateToNuremberg :: "(number \<Rightarrow> string) \<Rightarrow> AxisCoordinate \<Rightarrow> string" where
  "coordinateToNuremberg toString coord =
     join ''|'' (map (nuremberg_slot toString coord) AXIS_KEYS)"

text \<open>
  The rendering of one axis value in the words of the specification: an array as its
  elements joined with a comma, a missing value as the empty string, a string as itself
  and a number as the runtime writes it.
\<close>

fun spec_rendering :: "(number \<Rightarrow> string) \<Rightarrow> axis_value \<Rightarrow> string" where
  "spec_rendering toString Absent = ''''"
| "spec_rendering toString (Str s) = s"
| "spec_rendering toString (Num n) = toString n"
| "spec_rendering toString (Arr xs) = join '','' xs"

definition count_char :: "char \<Rightarrow> string \<Rightarrow> nat" where
  "count_char ch s = length (filter (\<lambda>c. c = ch) s)"

section \<open>The backend model (backend/models.py)\<close>

text \<open>
  Of the backend only the compiled module
  \<^verbatim>\<open>backend/__pycache__/models.cpython-310.pyc\<close> is among the sources, with part of its
  bytes lost; \<^verbatim>\<open>models.py\<close> itself and the request handlers are not. The definitions
  of this section follow the specification. For the methods modelled here
  (\<^verbatim>\<open>as_list\<close>, \<^verbatim>\<open>get_filled_axes_count\<close>, \<^verbatim>\<open>get_axis_completeness_ratio\<close>,
  \<^verbatim>\<open>validate_temporal\<close>) the compiled module is still legible and agrees with them: its
  \<^verbatim>\<open>AXIS_KEYS\<close> is the tuple of the same sixteen keys in the same order, \<open>pillar\<close> and
  \<open>sector\<close> are required fields, and the other fields default to \<^verbatim>\<open>None\<close>. The
  backend coordinate is therefore the record above, with \<open>Absent\<close> for \<^verbatim>\<open>None\<close>.
\<close>

text \<open>
  Modelled from the spec: \<^verbatim>\<open>as_list()\<close> of the missing \<^verbatim>\<open>models.py\<close>, section 3:
  axis values in canonical order, missing axes as null.
\<close>

definition as_list :: "AxisCoordinate \<Rightarrow> axis_value list" where
  "as_list self = map (\<lambda>key. get_axis self key) AXIS_KEYS"

text \<open>
  Modelled from the spec: \<^verbatim>\<open>get_filled_axes_count()\<close> and
  \<^verbatim>\<open>get_axis_completeness_ratio()\<close> of the missing \<^verbatim>\<open>models.py\<close>, section 3: the
  count of axes whose value is neither null nor empty string/list, and the filled count
  divided by the total axis count (16). The quotient of the source is a float; a count
  of at most sixteen over sixteen is a binary fraction, which a float holds exactly, so
  the ratio is the rational number.
\<close>

definition is_filled :: "axis_value \<Rightarrow> bool" where
  "is_filled value = (value \<noteq> Absent \<and> value \<noteq> Str '''' \<and> value \<noteq> Arr [])"

definition get_filled_axes_count :: "AxisCoordinate \<Rightarrow> nat" where
  "get_filled_axes_count self = length (filter is_filled (as_list self))"

definition get_axis_completeness_ratio :: "AxisCoordinate \<Rightarrow> rat" where
  "get_axis_completeness_ratio self =
     of_nat (get_filled_axes_count self) / of_nat (length AXIS_KEYS)"

subsection \<open>Validation\<close>

text \<open>
  Modelled from the spec: the per-field check of \<open>temporal\<close> (\<^verbatim>\<open>validate_temporal\<close> of the
  missing \<^verbatim>\<open>models.py\<close>), section 3: temporal, if present, must parse as an ISO-8601
  datetime, the UTC suffix Z normalised to +00:00 before parsing; otherwise validation
  fails. The parser is the runtime library's (\<^verbatim>\<open>datetime.fromisoformat\<close>): it is the
  parameter \<open>fromisoformat\<close>, true where the library returns a datetime. The
  normalisation is \<^verbatim>\<open>v.replace('Z', '+00:00')\<close>, which rewrites every Z; a failure is the
  exception \<^verbatim>\<open>ValueError\<close>.
\<close>

datatype py_exception = ValueError string

definition normalize_utc :: "string \<Rightarrow> string" where
  "normalize_utc v = concat (map (\<lambda>ch. if ch = CHR ''Z'' then ''+00:00'' else [ch]) v)"

definition validate_temporal ::
    "(string \<Rightarrow> bool) \<Rightarrow> string option \<Rightarrow> py_exception + string option" where
  "validate_temporal fromisoformat v =
     (case v of
        None \<Rightarrow> Inr None
      | Some t \<Rightarrow>
          if fromisoformat (normalize_utc t) then Inr (Some t)
          else Inl (ValueError ''Temporal must be valid ISO 8601 format''))"

text \<open>
  Modelled from the spec: \<^verbatim>\<open>validate(coordinate)\<close> of the missing request handlers,
  sections 4.1, 6 and 7: it re-applies the per-field checks (a FormatError, currently
  only for temporal) and adds the structural checks (a StructuralError when pillar or
  sector is empty), returns all violations rather than failing fast, and never raises.
  The report is \<^verbatim>\<open>{valid, errors}\<close>, each error a message that names its axis; the
  errors are the empty list when the coordinate is valid. The result is a report or an
  exception (\<open>Inr\<close> or \<open>Inl\<close>), as for every call that may raise; the exception of the
  per-field check is caught and becomes a finding.
\<close>

datatype violation = FormatError AxisKey | StructuralError AxisKey

fun error_message :: "violation \<Rightarrow> string" where
  "error_message (FormatError k) = key_name k @ '': must be valid ISO 8601 format''"
| "error_message (StructuralError k) = key_name k @ '': must not be empty''"

record validation_report =
  valid :: bool
  errors :: "string list"

definition violations :: "(string \<Rightarrow> bool) \<Rightarrow> AxisCoordinate \<Rightarrow> violation list" where
  "violations fromisoformat coordinate =
     (case validate_temporal fromisoformat (temporal coordinate) of
        Inl e \<Rightarrow> [FormatError Temporal]
      | Inr v \<Rightarrow> [])
     @ (if pillar coordinate = '''' then [StructuralError Pillar] else [])
     @ (if sector coordinate = SectorString '''' then [StructuralError Sector] else [])"

definition validate ::
    "(string \<Rightarrow> bool) \<Rightarrow> AxisCoordinate \<Rightarrow> py_exception + validation_report" where
  "validate fromisoformat coordinate =
     (let found = violations fromisoformat coordinate
      in Inr \<lparr>valid = (found = []), errors = map error_message found\<rparr>)"

text \<open>
  The theorems about validation hold for every parser. To evaluate them at concrete
  coordinates the parameter is instantiated with \<open>iso_shape\<close>, a recogniser of the shape
  \<^verbatim>\<open>YYYY-MM-DD[*HH:MM:SS[+HH:MM]]\<close>, cut at the positions the library cuts at
  (the date is the first ten characters, the time starts at the twelfth).
\<close>

definition is_digit :: "char \<Rightarrow> bool" where
  "is_digit ch = (ch \<in> set ''0123456789'')"

definition date_shape :: "string \<Rightarrow> bool" where
  "date_shape d =
     (length d = 10 \<and> list_all is_digit (take 4 d) \<and> d ! 4 = CHR ''-''
      \<and> list_all is_digit (take 2 (drop 5 d)) \<and> d ! 7 = CHR ''-''
      \<and> list_all is_digit (drop 8 d))"

definition clock_shape :: "string \<Rightarrow> bool" where
  "clock_shape t =
     (length t = 8 \<and> list_all is_digit (take 2 t) \<and> t ! 2 = CHR '':''
      \<and> list_all is_digit (take 2 (drop 3 t)) \<and> t ! 5 = CHR '':''
      \<and> list_all is_digit (drop 6 t))"

definition offset_shape :: "string \<Rightarrow> bool" where
  "offset_shape z =
     (length z = 6 \<and> (z ! 0 = CHR ''+'' \<or> z ! 0 = CHR ''-'')
      \<and> list_all is_digit (take 2 (drop 1 z)) \<and> z ! 3 = CHR '':''
      \<and> list_all is_digit (drop 4 z))"

definition iso_shape :: "string \<Rightarrow> bool" where
  "iso_shape s =
     (let dstr = take 10 s; tstr = drop 11 s
      in date_shape dstr
         \<and> (tstr = [] \<or> clock_shape (take 8 tstr)
               \<and> (drop 8 tstr = [] \<or> offset_shape (drop 8 tstr))))"

subsection \<open>Decoding\<close>

text \<open>\<^verbatim>\<open>str.split(sep)\<close> with a separator of one character.\<close>

fun split :: "char \<Rightarrow> string \<Rightarrow> string list" where
  "split sep [] = [[]]"
| "split sep (ch # s) =
     (if ch = sep then [] # split sep s
      else (case split sep s of [] \<Rightarrow> [[ch]] | w # ws \<Rightarrow> (ch # w) # ws))"

text \<open>
  Modelled from the spec: \<^verbatim>\<open>decode(nurembergString)\<close> of the missing request handlers,
  section 4.1: the inverse of encode; it splits on the bar into the 16 positional slots
  in canonical axis order, then splits honeycomb's slot on the comma. As encode renders
  a missing axis as the empty string, its inverse reads an empty slot of an optional
  axis as the missing axis; every value it reads is a string. A string that does not
  split into sixteen slots has no decoding (\<open>None\<close>).
\<close>

fun slot_value :: "string \<Rightarrow> string option" where
  "slot_value v = (if v = '''' then None else Some v)"

definition decode :: "string \<Rightarrow> AxisCoordinate option" where
  "decode nurembergString =
     (case split (CHR ''|'') nurembergString of
        [v1, v2, v3, v4, v5, v6, v7, v8, v9, v10, v11, v12, v13, v14, v15, v16] \<Rightarrow>
          Some \<lparr>pillar = v1, sector = SectorString v2,
                honeycomb = (if v3 = '''' then None else Some (split (CHR '','') v3)),
                branch = slot_value v4, node = slot_value v5, regulatory = slot_value v6,
                compliance = slot_value v7, compliance_level = slot_value v8,
                audit_requirements = slot_value v9, regulatory_framework = slot_value v10,
                role_knowledge = slot_value v11, role_sector = slot_value v12,
                role_regulatory = slot_value v13, role_compliance = slot_value v14,
                location = slot_value v15, temporal = slot_value v16\<rparr>
      | _ \<Rightarrow> None)"

text \<open>
  The hypotheses of the round trip. \<open>no_delimiters\<close>: no field value contains the bar or
  the comma (a number, as the runtime writes it). \<open>canonical\<close>: the coordinate is one
  that decoding can return: its sector is a string, no optional axis is present but
  empty, and its honeycomb, when present, is neither the empty array nor the array of
  one empty string.
\<close>

definition has_delimiter :: "string \<Rightarrow> bool" where
  "has_delimiter s = (CHR ''|'' \<in> set s \<or> CHR '','' \<in> set s)"

fun value_clean :: "(number \<Rightarrow> string) \<Rightarrow> axis_value \<Rightarrow> bool" where
  "value_clean toString Absent = True"
| "value_clean toString (Str s) = (\<not> has_delimiter s)"
| "value_clean toString (Num n) = (\<not> has_delimiter (toString n))"
| "value_clean toString (Arr xs) = list_all (\<lambda>x. \<not> has_delimiter x) xs"

definition no_delimiters :: "(number \<Rightarrow> string) \<Rightarrow> AxisCoordinate \<Rightarrow> bool" where
  "no_delimiters toString c = list_all (\<lambda>k. value_clean toString (get_axis c k)) AXIS_KEYS"



section \<open>Properties of the utility functions\<close>

lemma nuremberg_slot_rendering: "nuremberg_slot toString c k = spec_rendering toString (get_axis c k)"
  by (cases "get_axis c k") (simp_all add: nuremberg_slot_def)

lemma count_char_append [simp]: "count_char ch (xs @ ys) = count_char ch xs + count_char ch ys"
  by (simp add: count_char_def)

lemma count_char_Cons [simp]:
  "count_char ch (c # s) = (if c = ch then 1 else 0) + count_char ch s"
  by (simp add: count_char_def)

lemma count_char_Nil [simp]: "count_char ch [] = 0"
  by (simp add: count_char_def)

lemma count_char_join:
  "count_char ch (join [ch] (x # xs)) = length xs + (\<Sum>s\<leftarrow>x # xs. count_char ch s)"
proof (induction xs arbitrary: x)
  case Nil
  show ?case by simp
next
  case (Cons y ys)
  from Cons [of y] show ?case by simp
qed

text \<open>
  C4. The array form has exactly sixteen elements: the values of pillar, sector,
  honeycomb, branch, node, regulatory, compliance, compliance_level, audit_requirements,
  regulatory_framework, role_knowledge, role_sector, role_regulatory, role_compliance,
  location and temporal, in this order, a missing axis as the missing value.
\<close>

theorem coordinateToArray_canonical:
  "coordinateToArray c =
     [Str (pillar c),
      (case sector c of SectorString s \<Rightarrow> Str s | SectorNumber n \<Rightarrow> Num n),
      (case honeycomb c of None \<Rightarrow> Absent | Some xs \<Rightarrow> Arr xs),
      (case branch c of None \<Rightarrow> Absent | Some s \<Rightarrow> Str s),
      (case node c of None \<Rightarrow> Absent | Some s \<Rightarrow> Str s),
      (case regulatory c of None \<Rightarrow> Absent | Some s \<Rightarrow> Str s),
      (case compliance c of None \<Rightarrow> Absent | Some s \<Rightarrow> Str s),
      (case compliance_level c of None \<Rightarrow> Absent | Some s \<Rightarrow> Str s),
      (case audit_requirements c of None \<Rightarrow> Absent | Some s \<Rightarrow> Str s),
      (case regulatory_framework c of None \<Rightarrow> Absent | Some s \<Rightarrow> Str s),
      (case role_knowledge c of None \<Rightarrow> Absent | Some s \<Rightarrow> Str s),
      (case role_sector c of None \<Rightarrow> Absent | Some s \<Rightarrow> Str s),
      (case role_regulatory c of None \<Rightarrow> Absent | Some s \<Rightarrow> Str s),
      (case role_compliance c of None \<Rightarrow> Absent | Some s \<Rightarrow> Str s),
      (case location c of None \<Rightarrow> Absent | Some s \<Rightarrow> Str s),
      (case temporal c of None \<Rightarrow> Absent | Some s \<Rightarrow> Str s)]
   \<and> length (coordinateToArray c) = 16
   \<and> map key_name AXIS_KEYS =
       [''pillar'', ''sector'', ''honeycomb'', ''branch'', ''node'', ''regulatory'',
        ''compliance'', ''compliance_level'', ''audit_requirements'',
        ''regulatory_framework'', ''role_knowledge'', ''role_sector'', ''role_regulatory'',
        ''role_compliance'', ''location'', ''temporal'']"
proof -
  have opt: "\<And>x. optional_string x = (case x of None \<Rightarrow> Absent | Some s \<Rightarrow> Str s)"
    by (simp split: option.split)
  show ?thesis
    unfolding coordinateToArray_def AXIS_KEYS_def by (simp add: opt)
qed


lemma optional_rendering:
  "spec_rendering toString (optional_string x) = (case x of None \<Rightarrow> '''' | Some s \<Rightarrow> s)"
  by (cases x) simp_all

lemma nuremberg_slots:
  "map (nuremberg_slot toString c) AXIS_KEYS = map (spec_rendering toString) (coordinateToArray c)"
  by (simp add: coordinateToArray_def nuremberg_slot_rendering)

text \<open>
  C2. The encoding is the sixteen axis values in canonical order joined with the bar:
  sixteen renderings with fifteen separators between them, the honeycomb array as its
  elements joined with a comma, a missing axis as the empty string, a string as itself
  and a numeric sector as the string the runtime's \<open>toString\<close> returns for it,
  whatever that function is. The bars of the result are the fifteen separators and those
  inside the values.
\<close>

theorem coordinateToNuremberg_format:
  "coordinateToNuremberg toString c = join ''|'' (map (spec_rendering toString) (coordinateToArray c))
   \<and> length (map (spec_rendering toString) (coordinateToArray c)) = 16
   \<and> coordinateToNuremberg toString c =
       pillar c @ ''|'' @
       (case sector c of SectorString s \<Rightarrow> s | SectorNumber n \<Rightarrow> toString n) @ ''|'' @
       (case honeycomb c of None \<Rightarrow> '''' | Some xs \<Rightarrow> join '','' xs) @ ''|'' @
       (case branch c of None \<Rightarrow> '''' | Some s \<Rightarrow> s) @ ''|'' @
       (case node c of None \<Rightarrow> '''' | Some s \<Rightarrow> s) @ ''|'' @
       (case regulatory c of None \<Rightarrow> '''' | Some s \<Rightarrow> s) @ ''|'' @
       (case compliance c of None \<Rightarrow> '''' | Some s \<Rightarrow> s) @ ''|'' @
       (case compliance_level c of None \<Rightarrow> '''' | Some s \<Rightarrow> s) @ ''|'' @
       (case audit_requirements c of None \<Rightarrow> '''' | Some s \<Rightarrow> s) @ ''|'' @
       (case regulatory_framework c of None \<Rightarrow> '''' | Some s \<Rightarrow> s) @ ''|'' @
       (case role_knowledge c of None \<Rightarrow> '''' | Some s \<Rightarrow> s) @ ''|'' @
       (case role_sector c of None \<Rightarrow> '''' | Some s \<Rightarrow> s) @ ''|'' @
       (case role_regulatory c of None \<Rightarrow> '''' | Some s \<Rightarrow> s) @ ''|'' @
       (case role_compliance c of None \<Rightarrow> '''' | Some s \<Rightarrow> s) @ ''|'' @
       (case location c of None \<Rightarrow> '''' | Some s \<Rightarrow> s) @ ''|'' @
       (case temporal c of None \<Rightarrow> '''' | Some s \<Rightarrow> s)
   \<and> count_char (CHR ''|'') (coordinateToNuremberg toString c) =
       15 + (\<Sum>s\<leftarrow>map (spec_rendering toString) (coordinateToArray c). count_char (CHR ''|'') s)"
proof (intro conjI)
  show enc: "coordinateToNuremberg toString c = join ''|'' (map (spec_rendering toString) (coordinateToArray c))"
    by (simp add: coordinateToNuremberg_def nuremberg_slots)
  show len: "length (map (spec_rendering toString) (coordinateToArray c)) = 16"
    by (simp add: coordinateToArray_def AXIS_KEYS_def)
  show "coordinateToNuremberg toString c =
       pillar c @ ''|'' @
       (case sector c of SectorString s \<Rightarrow> s | SectorNumber n \<Rightarrow> toString n) @ ''|'' @
       (case honeycomb c of None \<Rightarrow> '''' | Some xs \<Rightarrow> join '','' xs) @ ''|'' @
       (case branch c of None \<Rightarrow> '''' | Some s \<Rightarrow> s) @ ''|'' @
       (case node c of None \<Rightarrow> '''' | Some s \<Rightarrow> s) @ ''|'' @
       (case regulatory c of None \<Rightarrow> '''' | Some s \<Rightarrow> s) @ ''|'' @
       (case compliance c of None \<Rightarrow> '''' | Some s \<Rightarrow> s) @ ''|'' @
       (case compliance_level c of None \<Rightarrow> '''' | Some s \<Rightarrow> s) @ ''|'' @
       (case audit_requirements c of None \<Rightarrow> '''' | Some s \<Rightarrow> s) @ ''|'' @
       (case regulatory_framework c of None \<Rightarrow> '''' | Some s \<Rightarrow> s) @ ''|'' @
       (case role_knowledge c of None \<Rightarrow> '''' | Some s \<Rightarrow> s) @ ''|'' @
       (case role_sector c of None \<Rightarrow> '''' | Some s \<Rightarrow> s) @ ''|'' @
       (case role_regulatory c of None \<Rightarrow> '''' | Some s \<Rightarrow> s) @ ''|'' @
       (case role_compliance c of None \<Rightarrow> '''' | Some s \<Rightarrow> s) @ ''|'' @
       (case location c of None \<Rightarrow> '''' | Some s \<Rightarrow> s) @ ''|'' @
       (case temporal c of None \<Rightarrow> '''' | Some s \<Rightarrow> s)"
    unfolding enc coordinateToArray_def AXIS_KEYS_def
    by (simp add: optional_rendering split: sector_value.split option.split)
  obtain x xs where xs: "map (spec_rendering toString) (coordinateToArray c) = x # xs"
    using len by (cases "map (spec_rendering toString) (coordinateToArray c)") simp_all
  with len have "length xs = 15" by simp
  with count_char_join [of "CHR ''|''" x xs]
  show "count_char (CHR ''|'') (coordinateToNuremberg toString c) =
       15 + (\<Sum>s\<leftarrow>map (spec_rendering toString) (coordinateToArray c). count_char (CHR ''|'') s)"
    unfolding enc xs by simp
qed

lemma empty_slot:
  "get_axis c k = Absent \<or> get_axis c k = Str '''' \<Longrightarrow> nuremberg_slot toString c k = ''''"
  by (auto simp: nuremberg_slot_rendering)

text \<open>
  C3. A coordinate whose honeycomb is [A, B] and whose other fifteen axes are empty or
  missing encodes to two empty slots, the slot A,B and thirteen empty slots.
\<close>

theorem honeycomb_only_nuremberg:
  assumes "honeycomb c = Some [''A'', ''B'']"
    and "\<forall>k. k \<noteq> Honeycomb \<longrightarrow> get_axis c k = Absent \<or> get_axis c k = Str ''''"
  shows "coordinateToNuremberg toString c = ''||A,B|||||||||||||''"
proof -
  have e: "nuremberg_slot toString c k = ''''" if "k \<noteq> Honeycomb" for k
    using assms(2) that by (simp add: empty_slot)
  have h: "nuremberg_slot toString c Honeycomb = ''A,B''"
    using assms(1) by (simp add: nuremberg_slot_def)
  show ?thesis
    unfolding coordinateToNuremberg_def AXIS_KEYS_def by (simp add: e h)
qed

theorem honeycomb_only_nuremberg_witness:
  "\<forall>toString.
     coordinateToNuremberg toString (createEmptyCoordinate\<lparr>honeycomb := Some [''A'', ''B'']\<rparr>)
       = ''||A,B|||||||||||||''"
proof
  fix toString :: "number \<Rightarrow> string"
  let ?c = "createEmptyCoordinate\<lparr>honeycomb := Some [''A'', ''B'']\<rparr>"
  have h: "honeycomb ?c = Some [''A'', ''B'']"
    by simp
  have others: "\<forall>k. k \<noteq> Honeycomb \<longrightarrow> get_axis ?c k = Absent \<or> get_axis ?c k = Str ''''"
  proof (intro allI impI)
    fix k :: AxisKey
    assume "k \<noteq> Honeycomb"
    then show "get_axis ?c k = Absent \<or> get_axis ?c k = Str ''''"
      by (cases k) (simp_all add: createEmptyCoordinate_def)
  qed
  from honeycomb_only_nuremberg [OF h others, of toString]
  show "coordinateToNuremberg toString ?c = ''||A,B|||||||||||||''" .
qed

lemma coordinateToNuremberg_join:
  "coordinateToNuremberg toString c = join ''|'' (map (spec_rendering toString) (coordinateToArray c))"
  by (simp add: coordinateToNuremberg_def nuremberg_slots)

text \<open>
  C10. The default coordinate has the empty string for pillar and sector and no other
  axis; its encoding is fifteen bars and nothing else, every one of the sixteen slots is
  empty, and none of its axes is filled.
\<close>

theorem createEmptyCoordinate_default:
  "coordinateToArray createEmptyCoordinate =
     [Str '''', Str '''', Absent, Absent, Absent, Absent, Absent, Absent, Absent, Absent,
      Absent, Absent, Absent, Absent, Absent, Absent]
   \<and> coordinateToNuremberg toString createEmptyCoordinate = ''|||||||||||||||''
   \<and> coordinateToNuremberg toString createEmptyCoordinate = replicate 15 (CHR ''|'')
   \<and> map (nuremberg_slot toString createEmptyCoordinate) AXIS_KEYS = replicate 16 ''''
   \<and> get_filled_axes_count createEmptyCoordinate = 0"
proof -
  have arr: "coordinateToArray createEmptyCoordinate =
     [Str '''', Str '''', Absent, Absent, Absent, Absent, Absent, Absent, Absent, Absent,
      Absent, Absent, Absent, Absent, Absent, Absent]"
    by (simp add: coordinateToArray_def AXIS_KEYS_def createEmptyCoordinate_def)
  have enc: "coordinateToNuremberg toString createEmptyCoordinate = ''|||||||||||||||''"
    by (simp add: coordinateToNuremberg_join arr)
  have rep: "replicate 15 (CHR ''|'') = ''|||||||||||||||''"
    by (simp add: eval_nat_numeral)
  have slots: "map (nuremberg_slot toString createEmptyCoordinate) AXIS_KEYS = replicate 16 ''''"
    by (simp add: nuremberg_slots arr eval_nat_numeral)
  have cnt: "get_filled_axes_count createEmptyCoordinate = 0"
    using arr by (simp add: get_filled_axes_count_def as_list_def coordinateToArray_def is_filled_def)
  from arr enc rep slots cnt show ?thesis by simp
qed

text \<open>
  C9. Encoding is not injective, also on coordinates without a delimiter in any value:
  a numeric sector \<open>n\<close> encodes as the string sector \<open>toString n\<close> does (the decimal
  string the runtime writes for \<open>n\<close>, whatever it is), and an empty honeycomb array as a
  missing honeycomb does, although the coordinates differ; so the decoding of the two
  encodings is the same.
\<close>

theorem coordinateToNuremberg_not_injective:
  "coordinateToNuremberg toString (c\<lparr>sector := SectorNumber n\<rparr>)
     = coordinateToNuremberg toString (c\<lparr>sector := SectorString (toString n)\<rparr>)
   \<and> c\<lparr>sector := SectorNumber n\<rparr> \<noteq> c\<lparr>sector := SectorString (toString n)\<rparr>
   \<and> coordinateToNuremberg toString (c\<lparr>honeycomb := Some []\<rparr>)
     = coordinateToNuremberg toString (c\<lparr>honeycomb := None\<rparr>)
   \<and> c\<lparr>honeycomb := Some []\<rparr> \<noteq> c\<lparr>honeycomb := None\<rparr>
   \<and> decode (coordinateToNuremberg toString (c\<lparr>sector := SectorNumber n\<rparr>))
     = decode (coordinateToNuremberg toString (c\<lparr>sector := SectorString (toString n)\<rparr>))
   \<and> decode (coordinateToNuremberg toString (c\<lparr>honeycomb := Some []\<rparr>))
     = decode (coordinateToNuremberg toString (c\<lparr>honeycomb := None\<rparr>))
   \<and> \<not> inj_on (coordinateToNuremberg toString) {c. no_delimiters toString c}"
proof -
  have s: "coordinateToNuremberg toString (c\<lparr>sector := SectorNumber n\<rparr>)
     = coordinateToNuremberg toString (c\<lparr>sector := SectorString (toString n)\<rparr>)"
    by (simp add: coordinateToNuremberg_join coordinateToArray_def AXIS_KEYS_def)
  have h: "coordinateToNuremberg toString (c\<lparr>honeycomb := Some []\<rparr>)
     = coordinateToNuremberg toString (c\<lparr>honeycomb := None\<rparr>)"
    by (simp add: coordinateToNuremberg_join coordinateToArray_def AXIS_KEYS_def)
  have ds: "c\<lparr>sector := SectorNumber n\<rparr> \<noteq> c\<lparr>sector := SectorString (toString n)\<rparr>"
  proof
    assume "c\<lparr>sector := SectorNumber n\<rparr> = c\<lparr>sector := SectorString (toString n)\<rparr>"
    then have "sector (c\<lparr>sector := SectorNumber n\<rparr>)
        = sector (c\<lparr>sector := SectorString (toString n)\<rparr>)"
      by (rule arg_cong)
    then show False by simp
  qed
  have dh: "c\<lparr>honeycomb := Some []\<rparr> \<noteq> c\<lparr>honeycomb := None\<rparr>"
  proof
    assume "c\<lparr>honeycomb := Some []\<rparr> = c\<lparr>honeycomb := None\<rparr>"
    then have "honeycomb (c\<lparr>honeycomb := Some []\<rparr>) = honeycomb (c\<lparr>honeycomb := None\<rparr>)"
      by (rule arg_cong)
    then show False by simp
  qed
  have ni: "\<not> inj_on (coordinateToNuremberg toString) {c. no_delimiters toString c}"
  proof
    assume inj: "inj_on (coordinateToNuremberg toString) {c. no_delimiters toString c}"
    let ?a = "createEmptyCoordinate\<lparr>honeycomb := Some []\<rparr>"
    let ?b = "createEmptyCoordinate\<lparr>honeycomb := None\<rparr>"
    have "no_delimiters toString ?a" "no_delimiters toString ?b"
      by (simp_all add: no_delimiters_def AXIS_KEYS_def createEmptyCoordinate_def
            has_delimiter_def)
    moreover have "coordinateToNuremberg toString ?a = coordinateToNuremberg toString ?b"
      by (simp add: coordinateToNuremberg_join coordinateToArray_def AXIS_KEYS_def)
    ultimately have "?a = ?b"
      using inj by (simp add: inj_on_def)
    then have "honeycomb ?a = honeycomb ?b" by (rule arg_cong)
    then show False by simp
  qed
  from s h ds dh ni show ?thesis by simp
qed

subsection \<open>Completeness\<close>

lemma distinct_AXIS_KEYS: "distinct AXIS_KEYS"
  by (simp add: AXIS_KEYS_def)

lemma set_AXIS_KEYS: "set AXIS_KEYS = UNIV"
proof
  show "UNIV \<subseteq> set AXIS_KEYS"
  proof
    fix k :: AxisKey
    show "k \<in> set AXIS_KEYS" by (cases k) (simp_all add: AXIS_KEYS_def)
  qed
qed simp

lemma length_AXIS_KEYS: "length AXIS_KEYS = 16"
  by (simp add: AXIS_KEYS_def)

lemma filled_count_card:
  "get_filled_axes_count c = card {k. is_filled (get_axis c k)}"
proof -
  have "get_filled_axes_count c = length (filter (\<lambda>k. is_filled (get_axis c k)) AXIS_KEYS)"
    by (simp add: get_filled_axes_count_def as_list_def filter_map comp_def)
  also have "\<dots> = card {k. is_filled (get_axis c k)}"
    using distinct_length_filter [OF distinct_AXIS_KEYS, of "\<lambda>k. is_filled (get_axis c k)"]
    by (simp add: set_AXIS_KEYS)
  finally show ?thesis .
qed

lemma filled_count_le: "get_filled_axes_count c \<le> 16"
proof -
  have "length (filter is_filled (as_list c)) \<le> length (as_list c)"
    by (rule length_filter_le)
  then show ?thesis
    by (simp add: get_filled_axes_count_def as_list_def length_AXIS_KEYS)
qed

lemma finite_keys: "finite (A :: AxisKey set)"
proof (rule finite_subset)
  show "A \<subseteq> set AXIS_KEYS" by (simp add: set_AXIS_KEYS)
qed simp

text \<open>
  C5. The completeness ratio is the number of filled axes (those whose value is neither
  missing nor the empty string nor the empty list) divided by 16; it lies between 0 and
  1; a coordinate that fills every axis another one fills has at least its ratio; and
  filling one axis that was not filled, the others unchanged, raises the ratio by one
  sixteenth.
\<close>

theorem completeness_ratio:
  "get_axis_completeness_ratio c = of_nat (get_filled_axes_count c) / 16
   \<and> get_filled_axes_count c = card {k. is_filled (get_axis c k)}
   \<and> 0 \<le> get_axis_completeness_ratio c \<and> get_axis_completeness_ratio c \<le> 1
   \<and> ((\<forall>k. is_filled (get_axis c k) \<longrightarrow> is_filled (get_axis c' k))
        \<longrightarrow> get_axis_completeness_ratio c \<le> get_axis_completeness_ratio c')
   \<and> (\<not> is_filled (get_axis c k) \<and> is_filled (get_axis c' k)
        \<and> (\<forall>j. j \<noteq> k \<longrightarrow> get_axis c' j = get_axis c j)
        \<longrightarrow> get_axis_completeness_ratio c' = get_axis_completeness_ratio c + 1 / 16)"
proof (intro conjI impI)
  show r: "get_axis_completeness_ratio c = of_nat (get_filled_axes_count c) / 16" for c
    by (simp add: get_axis_completeness_ratio_def length_AXIS_KEYS)
  show "get_filled_axes_count c = card {k. is_filled (get_axis c k)}"
    by (rule filled_count_card)
  show "0 \<le> get_axis_completeness_ratio c"
    by (simp add: r)
  show "get_axis_completeness_ratio c \<le> 1"
    using filled_count_le [of c] by (simp add: r)
  show "get_axis_completeness_ratio c \<le> get_axis_completeness_ratio c'"
    if "\<forall>k. is_filled (get_axis c k) \<longrightarrow> is_filled (get_axis c' k)"
  proof -
    from that have "{k. is_filled (get_axis c k)} \<subseteq> {k. is_filled (get_axis c' k)}"
      by blast
    then have "card {k. is_filled (get_axis c k)} \<le> card {k. is_filled (get_axis c' k)}"
      by (rule card_mono [OF finite_keys])
    then have "get_filled_axes_count c \<le> get_filled_axes_count c'"
      by (simp add: filled_count_card)
    then show ?thesis by (simp add: r divide_right_mono)
  qed
  show "get_axis_completeness_ratio c' = get_axis_completeness_ratio c + 1 / 16"
    if h: "\<not> is_filled (get_axis c k) \<and> is_filled (get_axis c' k)
        \<and> (\<forall>j. j \<noteq> k \<longrightarrow> get_axis c' j = get_axis c j)"
  proof -
    have "{j. is_filled (get_axis c' j)} = insert k {j. is_filled (get_axis c j)}"
    proof (rule set_eqI)
      fix j
      show "j \<in> {j. is_filled (get_axis c' j)} \<longleftrightarrow> j \<in> insert k {j. is_filled (get_axis c j)}"
        using h by (cases "j = k") simp_all
    qed
    moreover have "k \<notin> {j. is_filled (get_axis c j)}"
      using h by simp
    ultimately have "card {j. is_filled (get_axis c' j)} = Suc (card {j. is_filled (get_axis c j)})"
      by (simp add: card_insert_disjoint [OF finite_keys])
    then have "get_filled_axes_count c' = Suc (get_filled_axes_count c)"
      by (simp add: filled_count_card)
    then show ?thesis by (simp add: r add_divide_distrib)
  qed
qed

theorem completeness_ratio_witness:
  "get_axis_completeness_ratio createEmptyCoordinate = 0
   \<and> get_axis_completeness_ratio (createEmptyCoordinate\<lparr>pillar := ''PL01.1.1''\<rparr>) = 1 / 16
   \<and> get_axis_completeness_ratio createEmptyCoordinate
       \<le> get_axis_completeness_ratio (createEmptyCoordinate\<lparr>pillar := ''PL01.1.1''\<rparr>)"
proof -
  let ?c = "createEmptyCoordinate"
  let ?c' = "createEmptyCoordinate\<lparr>pillar := ''PL01.1.1''\<rparr>"
  have same: "\<forall>j. j \<noteq> Pillar \<longrightarrow> get_axis ?c' j = get_axis ?c j"
  proof (intro allI impI)
    fix j :: AxisKey
    assume "j \<noteq> Pillar"
    then show "get_axis ?c' j = get_axis ?c j" by (cases j) simp_all
  qed
  have unfilled: "\<not> is_filled (get_axis ?c Pillar)"
    by (simp add: is_filled_def createEmptyCoordinate_def)
  have filled: "is_filled (get_axis ?c' Pillar)"
    by (simp add: is_filled_def)
  have mono: "\<forall>k. is_filled (get_axis ?c k) \<longrightarrow> is_filled (get_axis ?c' k)"
  proof (intro allI impI)
    fix k :: AxisKey
    assume "is_filled (get_axis ?c k)"
    then show "is_filled (get_axis ?c' k)"
      by (cases k) (simp_all add: is_filled_def createEmptyCoordinate_def)
  qed
  have zero: "get_filled_axes_count ?c = 0"
    by (simp add: get_filled_axes_count_def as_list_def AXIS_KEYS_def
          createEmptyCoordinate_def is_filled_def)
  from completeness_ratio [of ?c ?c' Pillar] same unfilled filled mono zero
  show ?thesis by simp
qed

subsection \<open>Validation\<close>

lemma violations_cases:
  "violations parses c =
     (if \<exists>t. temporal c = Some t \<and> \<not> parses (normalize_utc t) then [FormatError Temporal] else [])
     @ (if pillar c = '''' then [StructuralError Pillar] else [])
     @ (if sector c = SectorString '''' then [StructuralError Sector] else [])"
  by (cases "temporal c") (simp_all add: violations_def validate_temporal_def)

text \<open>
  C6. For a coordinate with a non-empty pillar and a non-empty sector: without a
  temporal value validation returns the report that is valid and has no errors; with a
  temporal value that the parser rejects after the normalisation of Z, it returns the
  report that is invalid and whose one error names the temporal axis. (With a temporal
  value the parser accepts the report is valid.)
\<close>

theorem validate_temporal_report:
  assumes "pillar c \<noteq> ''''" and "sector c \<noteq> SectorString ''''"
  shows "validate parses (c\<lparr>temporal := None\<rparr>) = Inr \<lparr>valid = True, errors = []\<rparr>
    \<and> (\<not> parses (normalize_utc t) \<longrightarrow>
         validate parses (c\<lparr>temporal := Some t\<rparr>)
           = Inr \<lparr>valid = False, errors = [''temporal: must be valid ISO 8601 format'']\<rparr>)
    \<and> (parses (normalize_utc t) \<longrightarrow>
         validate parses (c\<lparr>temporal := Some t\<rparr>) = Inr \<lparr>valid = True, errors = []\<rparr>)"
  using assms by (simp add: validate_def violations_cases)

theorem validate_temporal_report_witness:
  "validate iso_shape
     (createEmptyCoordinate\<lparr>pillar := ''PL01.1.1'', sector := SectorString ''5415''\<rparr>)
     = Inr \<lparr>valid = True, errors = []\<rparr>
   \<and> validate iso_shape
     (createEmptyCoordinate\<lparr>pillar := ''PL01.1.1'', sector := SectorString ''5415'',
        temporal := Some ''not-a-date''\<rparr>)
     = Inr \<lparr>valid = False, errors = [''temporal: must be valid ISO 8601 format'']\<rparr>
   \<and> validate iso_shape
     (createEmptyCoordinate\<lparr>pillar := ''PL01.1.1'', sector := SectorString ''5415'',
        temporal := Some ''2024-01-01T00:00:00Z''\<rparr>)
     = Inr \<lparr>valid = True, errors = []\<rparr>"
proof -
  let ?c = "createEmptyCoordinate\<lparr>pillar := ''PL01.1.1'', sector := SectorString ''5415''\<rparr>"
  have p: "pillar ?c \<noteq> ''''" and s: "sector ?c \<noteq> SectorString ''''"
    by simp_all
  have none: "?c\<lparr>temporal := None\<rparr> = ?c"
    by (simp add: createEmptyCoordinate_def)
  have bad: "\<not> iso_shape (normalize_utc ''not-a-date'')"
    by (simp add: normalize_utc_def iso_shape_def date_shape_def is_digit_def)
  have good: "iso_shape (normalize_utc ''2024-01-01T00:00:00Z'')"
    by (simp add: normalize_utc_def iso_shape_def date_shape_def clock_shape_def
          offset_shape_def is_digit_def)
  from validate_temporal_report [OF p s, of iso_shape "''not-a-date''"]
       validate_temporal_report [OF p s, of iso_shape "''2024-01-01T00:00:00Z''"]
       none bad good
  show ?thesis by simp
qed



subsection \<open>Decoding an encoding\<close>





















text \<open>
  The failure does not depend on how decoding is written: no function inverts the
  encoding on the valid coordinates without delimiters, whatever the parser and the
  rendering of numbers are, since the coordinate with the empty honeycomb array and the
  coordinate without honeycomb have the same encoding.
\<close>

lemma no_decoder_inverts_encoding:
  "\<not> (\<forall>c. (\<exists>r. validate parses c = Inr r \<and> valid r) \<and> no_delimiters toString c
          \<longrightarrow> d (coordinateToNuremberg toString c) = Some c)"
proof
  assume inv: "\<forall>c. (\<exists>r. validate parses c = Inr r \<and> valid r) \<and> no_delimiters toString c
          \<longrightarrow> d (coordinateToNuremberg toString c) = Some c"
  let ?a = "createEmptyCoordinate\<lparr>pillar := ''PL01.1.1'', sector := SectorString ''5415'',
        honeycomb := Some []\<rparr>"
  let ?b = "createEmptyCoordinate\<lparr>pillar := ''PL01.1.1'', sector := SectorString ''5415''\<rparr>"
  have va: "\<exists>r. validate parses ?a = Inr r \<and> valid r"
    by (simp add: validate_def violations_cases createEmptyCoordinate_def)
  have vb: "\<exists>r. validate parses ?b = Inr r \<and> valid r"
    by (simp add: validate_def violations_cases createEmptyCoordinate_def)
  have na: "no_delimiters toString ?a"
    by (simp add: no_delimiters_def AXIS_KEYS_def createEmptyCoordinate_def has_delimiter_def)
  have nb: "no_delimiters toString ?b"
    by (simp add: no_delimiters_def AXIS_KEYS_def createEmptyCoordinate_def has_delimiter_def)
  have same: "coordinateToNuremberg toString ?a = coordinateToNuremberg toString ?b"
    by (simp add: coordinateToNuremberg_join coordinateToArray_def AXIS_KEYS_def
          createEmptyCoordinate_def)
  from inv va na have a: "d (coordinateToNuremberg toString ?a) = Some ?a"
    by blast
  from inv vb nb have b: "d (coordinateToNuremberg toString ?b) = Some ?b"
    by blast
  from a b have "Some ?a = Some ?b"
    by (simp only: same)
  then have "honeycomb ?a = honeycomb ?b"
    by (simp only: option.inject)
  then show False
    by (simp add: createEmptyCoordinate_def)
qed


end
